theory Spec2Isabelle
  imports Main
begin

section \<open>Values of the query language\<close>

text \<open>
  The statements of \<^verbatim>\<open>mongosql/statements.py\<close> receive JSON-shaped Python values.
  \<open>VStr\<close> is any \<^verbatim>\<open>basestring\<close>; a \<^verbatim>\<open>dict\<close> and an
  \<^verbatim>\<open>OrderedDict\<close> are association lists with string keys, listed in the order in which
  \<^verbatim>\<open>items()\<close> iterates; a dict the code builds lists its keys in the order of their first
  insertion. \<open>VInt\<close> is an integer as the JSON parser of Python 2 creates it: an \<^verbatim>\<open>int\<close>
  when it lies between \<^verbatim>\<open>-sys.maxint - 1\<close> and \<^verbatim>\<open>sys.maxint\<close>, a \<^verbatim>\<open>long\<close> otherwise;
  \<^verbatim>\<open>sys.maxint\<close> is the parameter \<open>maxint\<close> of the functions that tell the two apart.
  Floating point numbers are not modelled.
\<close>

datatype pyval =
    VNone
  | VBool bool
  | VInt int
  | VStr string
  | VList "pyval list"
  | VTuple "pyval list"
  | VDict "(string \<times> pyval) list"
  | VOrderedDict "(string \<times> pyval) list"

text \<open>The exceptions the source can raise; an \<^verbatim>\<open>AssertionError\<close> carries its message.
  \<open>ArgumentError\<close> is the one exception of the backend's own.\<close>

datatype error =
    AssertionError string
  | IndexError
  | KeyError string
  | TypeError
  | AttributeError
  | ArgumentError

text \<open>Python's truth value, as \<^verbatim>\<open>not x\<close>, \<^verbatim>\<open>if x\<close> and \<^verbatim>\<open>any\<close> use it.\<close>

fun truthy :: "pyval \<Rightarrow> bool" where
  "truthy VNone = False"
| "truthy (VBool b) = b"
| "truthy (VInt n) = (n \<noteq> 0)"
| "truthy (VStr s) = (s \<noteq> [])"
| "truthy (VList xs) = (xs \<noteq> [])"
| "truthy (VTuple xs) = (xs \<noteq> [])"
| "truthy (VDict d) = (d \<noteq> [])"
| "truthy (VOrderedDict d) = (d \<noteq> [])"

text \<open>\<^verbatim>\<open>isinstance(x, (list, tuple))\<close>, \<^verbatim>\<open>isinstance(x, basestring)\<close>, \<^verbatim>\<open>isinstance(x, dict)\<close>
  (an \<^verbatim>\<open>OrderedDict\<close> is a \<^verbatim>\<open>dict\<close>) and \<^verbatim>\<open>isinstance(x, int)\<close> (a \<^verbatim>\<open>bool\<close> is an
  \<^verbatim>\<open>int\<close>, a \<^verbatim>\<open>long\<close> is not).\<close>

fun is_seq :: "pyval \<Rightarrow> bool" where
  "is_seq (VList xs) = True"
| "is_seq (VTuple xs) = True"
| "is_seq v = False"

fun seq_items :: "pyval \<Rightarrow> pyval list" where
  "seq_items (VList xs) = xs"
| "seq_items (VTuple xs) = xs"
| "seq_items v = []"

fun is_basestring :: "pyval \<Rightarrow> bool" where
  "is_basestring (VStr s) = True"
| "is_basestring v = False"

fun is_dict :: "pyval \<Rightarrow> bool" where
  "is_dict (VDict d) = True"
| "is_dict (VOrderedDict d) = True"
| "is_dict v = False"

fun dict_items :: "pyval \<Rightarrow> (string \<times> pyval) list" where
  "dict_items (VDict d) = d"
| "dict_items (VOrderedDict d) = d"
| "dict_items v = []"

fun is_int :: "int \<Rightarrow> pyval \<Rightarrow> bool" where
  "is_int maxint (VInt n) = (- maxint - 1 \<le> n \<and> n \<le> maxint)"
| "is_int maxint (VBool b) = True"
| "is_int maxint v = False"

text \<open>The number a \<^verbatim>\<open>bool\<close> or \<^verbatim>\<open>int\<close> stands for in arithmetic and comparison.\<close>

fun int_of :: "pyval \<Rightarrow> int option" where
  "int_of (VInt n) = Some n"
| "int_of (VBool b) = Some (if b then 1 else 0)"
| "int_of v = None"

text \<open>\<^verbatim>\<open>v == n\<close> for an integer literal \<open>n\<close>.\<close>

definition eq_int :: "pyval \<Rightarrow> int \<Rightarrow> bool" where
  "eq_int v n = (int_of v = Some n)"

text \<open>Hashable values: everything but lists and dicts; a tuple when its items are.\<close>

fun hashable :: "pyval \<Rightarrow> bool" where
  "hashable (VList xs) = False"
| "hashable (VDict d) = False"
| "hashable (VOrderedDict d) = False"
| "hashable (VTuple xs) = list_all hashable xs"
| "hashable v = True"

text \<open>Two hashable values are the same dict key when they are equal in Python, where
  \<^verbatim>\<open>True == 1\<close> and \<^verbatim>\<open>False == 0\<close>: keys are compared after \<open>key_norm\<close>.\<close>

fun key_norm :: "pyval \<Rightarrow> pyval" where
  "key_norm (VBool b) = VInt (if b then 1 else 0)"
| "key_norm (VTuple xs) = VTuple (map key_norm xs)"
| "key_norm v = v"

definition py_eq :: "pyval \<Rightarrow> pyval \<Rightarrow> bool" where
  "py_eq a b = (key_norm a = key_norm b)"

text \<open>\<^verbatim>\<open>d[k] = v\<close> on a dict kept in insertion order: an existing key keeps its place.\<close>

fun dict_set :: "('k \<Rightarrow> 'k \<Rightarrow> bool) \<Rightarrow> ('k \<times> 'v) list \<Rightarrow> 'k \<Rightarrow> 'v \<Rightarrow> ('k \<times> 'v) list" where
  "dict_set eq [] k v = [(k, v)]"
| "dict_set eq ((k', v') # d) k v =
     (if eq k' k then (k', v) # d else (k', v') # dict_set eq d k v)"

text \<open>A dict built from a sequence of entries, as a dict comprehension, a dict literal
  and \<^verbatim>\<open>OrderedDict(pairs)\<close> build it.\<close>

definition dict_of :: "('k \<Rightarrow> 'k \<Rightarrow> bool) \<Rightarrow> ('k \<times> 'v) list \<Rightarrow> ('k \<times> 'v) list" where
  "dict_of eq kvs = foldl (\<lambda>d (k, v). dict_set eq d k v) [] kvs"

text \<open>\<^verbatim>\<open>s.split(sep)\<close> for a separator of one character.\<close>

fun split_acc :: "char \<Rightarrow> string \<Rightarrow> string \<Rightarrow> string list" where
  "split_acc c acc [] = [rev acc]"
| "split_acc c acc (x # xs) =
     (if x = c then rev acc # split_acc c [] xs else split_acc c (x # acc) xs)"

definition split :: "char \<Rightarrow> string \<Rightarrow> string list" where
  "split c s = split_acc c [] s"

text \<open>\<^verbatim>\<open>sum(values)\<close>: starts from 0; adding anything but a number raises \<^verbatim>\<open>TypeError\<close>.\<close>

fun py_sum :: "int \<Rightarrow> pyval list \<Rightarrow> error + int" where
  "py_sum acc [] = Inr acc"
| "py_sum acc (v # vs) =
     (case int_of v of None \<Rightarrow> Inl TypeError | Some n \<Rightarrow> py_sum (acc + n) vs)"

text \<open>Running a list of fallible steps in order, stopping at the first exception.\<close>

fun sequence :: "(error + 'a) list \<Rightarrow> error + 'a list" where
  "sequence [] = Inr []"
| "sequence (r # rs) =
     (case r of
        Inl e \<Rightarrow> Inl e
      | Inr x \<Rightarrow> (case sequence rs of Inl e \<Rightarrow> Inl e | Inr xs \<Rightarrow> Inr (x # xs)))"

section \<open>The schema and the plan\<close>

text \<open>A column handle is its key and its type; \<^verbatim>\<open>isinstance(col.type, pg.ARRAY)\<close> is
  \<open>is_array\<close> and \<^verbatim>\<open>col.type.item_type\<close> is \<open>item_type\<close>.\<close>

datatype sqltype = Plain string | ARRAY sqltype

datatype column = Column (col_key: string) (col_type: sqltype)

fun is_array :: "sqltype \<Rightarrow> bool" where
  "is_array (ARRAY t) = True"
| "is_array (Plain n) = False"

fun item_type :: "sqltype \<Rightarrow> sqltype" where
  "item_type (ARRAY t) = t"
| "item_type (Plain n) = Plain n"

datatype relation = Relation string

record model =
  model_columns :: "(string \<times> column) list"
  model_relations :: "(string \<times> relation) list"

text \<open>The calls the source makes on the SQL backend, kept as a term: one constructor per
  backend operation, nothing simplified.\<close>

datatype expr =
    Col column
  | Lit pyval
  | PyTrue
  | CastArray "pyval list" sqltype
  | Eq expr expr
  | Ne expr expr
  | Lt expr expr
  | Le expr expr
  | Ge expr expr
  | Gt expr expr
  | AnyEq expr expr
  | AllNe expr expr
  | Overlap expr expr
  | In expr expr
  | NotIn expr expr
  | Contains expr expr
  | ArrayLength expr int
  | Invert expr
  | Not expr
  | And "expr list"
  | Or "expr list"
  | SelfGroup expr
  | CastInteger expr
  | FuncMax expr
  | FuncMin expr
  | FuncAvg expr
  | FuncSum expr
  | FuncCount
  | Mul expr expr
  | Label expr string
  | Desc expr

datatype option_directive = LoadOnly column | LazyLoad string

section \<open>MongoProjection\<close>

record projection_state =
  inclusion_mode :: bool
  projection :: "(pyval \<times> pyval) list"

definition projection_of_keys :: "pyval list \<Rightarrow> pyval \<Rightarrow> error + (pyval \<times> pyval) list" where
  "projection_of_keys ks v =
     (if list_all hashable ks then Inr (dict_of py_eq (map (\<lambda>k. (k, v)) ks))
      else Inl TypeError)"

definition projection_of_dict :: "(string \<times> pyval) list \<Rightarrow> error + projection_state" where
  "projection_of_dict d =
     (case py_sum 0 (map snd d) of
        Inl e \<Rightarrow> Inl e
      | Inr sm \<Rightarrow>
          if sm = 0 \<or> sm = int (length d)
          then Inr \<lparr>inclusion_mode = list_ex truthy (map snd d),
                    projection = map (\<lambda>(k, v). (VStr k, v)) d\<rparr>
          else Inl (AssertionError ''Dict projection values shall be all 0s or all 1s''))"

definition MongoProjection_init :: "pyval \<Rightarrow> error + projection_state" where
  "MongoProjection_init p =
     (if \<not> truthy p then Inr \<lparr>inclusion_mode = False, projection = []\<rparr>
      else case p of
        VStr s \<Rightarrow>
          (case s of
             [] \<Rightarrow> Inr \<lparr>inclusion_mode = False, projection = []\<rparr>
           | c # rest \<Rightarrow>
               let mode = (if c = CHR ''-'' \<or> c = CHR ''+'' then c = CHR ''+'' else True);
                   names = (if c = CHR ''-'' \<or> c = CHR ''+'' then rest else s)
               in (case projection_of_keys (map VStr (split CHR '','' names))
                          (VInt (if mode then 1 else 0)) of
                     Inl e \<Rightarrow> Inl e
                   | Inr d \<Rightarrow> Inr \<lparr>inclusion_mode = mode, projection = d\<rparr>))
      | VList xs \<Rightarrow>
          (case projection_of_keys xs (VInt 1) of
             Inl e \<Rightarrow> Inl e
           | Inr d \<Rightarrow> Inr \<lparr>inclusion_mode = True, projection = d\<rparr>)
      | VTuple xs \<Rightarrow>
          (case projection_of_keys xs (VInt 1) of
             Inl e \<Rightarrow> Inl e
           | Inr d \<Rightarrow> Inr \<lparr>inclusion_mode = True, projection = d\<rparr>)
      | VDict d \<Rightarrow> projection_of_dict d
      | VOrderedDict d \<Rightarrow> projection_of_dict d
      | _ \<Rightarrow> Inl (AssertionError ''Projection must be one of: None, str, list, dict''))"

text \<open>\<^verbatim>\<open>columns[name]\<close> on the schema's dict of columns.\<close>

fun getitem :: "(string \<times> 'a) list \<Rightarrow> pyval \<Rightarrow> error + 'a" where
  "getitem d (VStr k) = (case map_of d k of None \<Rightarrow> Inl (KeyError k) | Some x \<Rightarrow> Inr x)"
| "getitem d v = Inl (KeyError [])"

text \<open>\<^verbatim>\<open>set(keys) <= set(columns.keys())\<close>: every key is the name of a column.\<close>

fun names_column :: "(string \<times> 'a) list \<Rightarrow> pyval \<Rightarrow> bool" where
  "names_column d (VStr k) = (k \<in> set (map fst d))"
| "names_column d v = False"

definition MongoProjection_columns ::
  "(string \<times> column) list \<Rightarrow> (pyval \<times> pyval) list \<Rightarrow> bool \<Rightarrow> error + column list" where
  "MongoProjection_columns columns proj incl =
     (if \<not> list_all (names_column columns) (map fst proj)
      then Inl (AssertionError ''Invalid column specified in projection'')
      else if incl then sequence (map (\<lambda>(name, inc). getitem columns name) proj)
      else Inr (map snd (filter (\<lambda>(name, col). VStr name \<notin> set (map fst proj)) columns)))"

definition MongoProjection_options ::
  "(string \<times> column) list \<Rightarrow> (pyval \<times> pyval) list \<Rightarrow> bool \<Rightarrow> error + option_directive list" where
  "MongoProjection_options columns proj incl =
     (case MongoProjection_columns columns proj incl of
        Inl e \<Rightarrow> Inl e
      | Inr cols \<Rightarrow> Inr (map LoadOnly cols))"

definition MongoProjection_call :: "projection_state \<Rightarrow> model \<Rightarrow> error + option_directive list" where
  "MongoProjection_call self m =
     MongoProjection_options (model_columns m) (projection self) (inclusion_mode self)"

text \<open>Parsing a request and compiling it against a model.\<close>

definition compile_projection :: "pyval \<Rightarrow> model \<Rightarrow> error + option_directive list" where
  "compile_projection p m =
     (case MongoProjection_init p of Inl e \<Rightarrow> Inl e | Inr self \<Rightarrow> MongoProjection_call self m)"

section \<open>MongoSort and MongoGroup\<close>

text \<open>One token of the string syntax: \<^verbatim>\<open>v[-1]\<close> raises \<^verbatim>\<open>IndexError\<close> on the empty
  string, before anything else is looked at.\<close>

definition sort_token :: "string \<Rightarrow> error + (string \<times> pyval)" where
  "sort_token v =
     (if v = [] then Inl IndexError
      else if last v = CHR ''+'' \<or> last v = CHR ''-''
        then Inr (butlast v, VInt (if last v = CHR ''-'' then - 1 else 1))
      else Inr (v, VInt 1))"

fun str_of :: "pyval \<Rightarrow> string" where
  "str_of (VStr s) = s"
| "str_of v = []"

text \<open>\<^verbatim>\<open>all(dir in {-1, +1} for field, dir in items)\<close>: stops at the first direction that is
  not one of the two; an unhashable direction raises \<^verbatim>\<open>TypeError\<close>.\<close>

fun check_directions :: "(string \<times> pyval) list \<Rightarrow> error + bool" where
  "check_directions [] = Inr True"
| "check_directions ((field, d) # rest) =
     (if \<not> hashable d then Inl TypeError
      else if eq_int d (- 1) \<or> eq_int d 1 then check_directions rest
      else Inr False)"

text \<open>\<open>cls\<close> is \<^verbatim>\<open>type(self).__name__\<close>. The result is \<^verbatim>\<open>self.sort\<close>.\<close>

definition MongoSort_init :: "string \<Rightarrow> pyval \<Rightarrow> error + (string \<times> pyval) list" where
  "MongoSort_init cls sort_spec =
     (let s1 = (if \<not> truthy sort_spec then VList [] else sort_spec);
          s2 = (case s1 of VStr s \<Rightarrow> VList (map VStr (split CHR '','' s)) | _ \<Rightarrow> s1);
          r3 = (if is_seq s2 \<and> list_all is_basestring (seq_items s2)
                then (case sequence (map (\<lambda>v. sort_token (str_of v)) (seq_items s2)) of
                        Inl e \<Rightarrow> Inl e
                      | Inr kvs \<Rightarrow> Inr (VOrderedDict (dict_of (=) kvs)))
                else Inr s2)
      in case r3 of
           Inl e \<Rightarrow> Inl e
         | Inr (VOrderedDict d) \<Rightarrow>
             (case check_directions d of
                Inl e \<Rightarrow> Inl e
              | Inr ok \<Rightarrow>
                  if ok then Inr d
                  else Inl (AssertionError (cls @ '' direction can be either +1 or -1'')))
         | Inr _ \<Rightarrow>
             Inl (AssertionError
               (cls @ '' must be one of: None, string, list of strings, OrderedDict'')))"

definition MongoSort_columns ::
  "string \<Rightarrow> (string \<times> column) list \<Rightarrow> (string \<times> pyval) list \<Rightarrow> error + expr list" where
  "MongoSort_columns cls columns sort_d =
     (if \<not> list_all (\<lambda>name. name \<in> set (map fst columns)) (map fst sort_d)
      then Inl (AssertionError (''Invalid column specified in '' @ cls))
      else sequence (map (\<lambda>(name, d).
             case getitem columns (VStr name) of
               Inl e \<Rightarrow> Inl e
             | Inr col \<Rightarrow> Inr (if eq_int d (- 1) then Desc (Col col) else Col col)) sort_d))"

definition MongoSort_call :: "(string \<times> pyval) list \<Rightarrow> model \<Rightarrow> error + expr list" where
  "MongoSort_call self m = MongoSort_columns ''MongoSort'' (model_columns m) self"

definition MongoGroup_init :: "pyval \<Rightarrow> error + (string \<times> pyval) list" where
  "MongoGroup_init group_spec = MongoSort_init ''MongoGroup'' group_spec"

definition MongoGroup_call :: "(string \<times> pyval) list \<Rightarrow> model \<Rightarrow> error + expr list" where
  "MongoGroup_call self m = MongoSort_columns ''MongoGroup'' (model_columns m) self"

definition compile_sort :: "pyval \<Rightarrow> model \<Rightarrow> error + expr list" where
  "compile_sort spec m =
     (case MongoSort_init ''MongoSort'' spec of Inl e \<Rightarrow> Inl e | Inr self \<Rightarrow> MongoSort_call self m)"

definition compile_group :: "pyval \<Rightarrow> model \<Rightarrow> error + expr list" where
  "compile_group spec m =
     (case MongoGroup_init spec of Inl e \<Rightarrow> Inl e | Inr self \<Rightarrow> MongoGroup_call self m)"

section \<open>MongoCriteria\<close>

text \<open>
  One operator of a field's criteria: the body of the loop over \<^verbatim>\<open>criteria.items()\<close>.
  When the column is an array and the operand a list, the operand is replaced by the cast
  clause first. Two tests then read the truth value of a backend clause, which this source
  does not define: \<^verbatim>\<open>if value\<close> under \<^verbatim>\<open>$exists\<close> (SQLAlchemy raises \<^verbatim>\<open>TypeError\<close> for a
  cast clause) and \<^verbatim>\<open>value == 0\<close> under \<^verbatim>\<open>$size\<close> (SQLAlchemy compares the hashes of the
  two sides, which differ). The backend also refuses to build an ordered comparison of a
  column with \<^verbatim>\<open>None\<close>, \<^verbatim>\<open>True\<close> or \<^verbatim>\<open>False\<close>: it raises its \<^verbatim>\<open>ArgumentError\<close>.
\<close>

fun is_none_or_bool :: "pyval \<Rightarrow> bool" where
  "is_none_or_bool VNone = True"
| "is_none_or_bool (VBool b) = True"
| "is_none_or_bool v = False"

definition compile_operator :: "column \<Rightarrow> string \<Rightarrow> pyval \<Rightarrow> error + expr" where
  "compile_operator col op val =
     (let col_array = is_array (col_type col);
          value_array = is_seq val;
          casted = (col_array \<and> value_array);
          v = (if casted then CastArray (seq_items val) (item_type (col_type col)) else Lit val)
      in
      if op = ''$eq'' then
        (if col_array then
           (if value_array then Inr (Eq (Col col) v) else Inr (AnyEq (Col col) v))
         else Inr (Eq (Col col) v))
      else if op = ''$ne'' then
        (if col_array \<and> \<not> value_array then
           (if value_array then Inr (Ne (Col col) v) else Inr (AllNe (Col col) v))
         else Inr (Ne (Col col) v))
      else if op = ''$lt'' then
        (if is_none_or_bool val then Inl ArgumentError else Inr (Lt (Col col) v))
      else if op = ''$lte'' then
        (if is_none_or_bool val then Inl ArgumentError else Inr (Le (Col col) v))
      else if op = ''$gte'' then
        (if is_none_or_bool val then Inl ArgumentError else Inr (Ge (Col col) v))
      else if op = ''$gt'' then
        (if is_none_or_bool val then Inl ArgumentError else Inr (Gt (Col col) v))
      else if op = ''$in'' then
        (if \<not> value_array then Inl (AssertionError ''Criteria: $in argument must be a list'')
         else if col_array then Inr (Overlap (Col col) v)
         else Inr (In (Col col) v))
      else if op = ''$nin'' then
        (if \<not> value_array then Inl (AssertionError ''Criteria: $nin argument must be a list'')
         else if col_array then Inr (Invert (Overlap (Col col) v))
         else Inr (NotIn (Col col) v))
      else if op = ''$exists'' then
        (if casted then Inl TypeError
         else if truthy val then Inr (Ne (Col col) (Lit VNone))
         else Inr (Eq (Col col) (Lit VNone)))
      else if op = ''$all'' then
        (if \<not> col_array
         then Inl (AssertionError ''Criteria: $all can only be applied to an array column'')
         else if \<not> value_array
         then Inl (AssertionError ''Criteria: $all argument must be a list'')
         else Inr (Contains (Col col) v))
      else if op = ''$size'' then
        (if \<not> col_array
         then Inl (AssertionError ''Criteria: $all can only be applied to an array column'')
         else if \<not> casted \<and> eq_int val 0 then Inr (Eq (ArrayLength (Col col) 1) (Lit VNone))
         else Inr (Eq (ArrayLength (Col col) 1) v))
      else Inl (AssertionError (''Criteria: unsupported operator '' @ [CHR 0x22] @ op @ [CHR 0x22])))"

definition compile_operators :: "column \<Rightarrow> (string \<times> pyval) list \<Rightarrow> error + expr list" where
  "compile_operators col ops = sequence (map (\<lambda>(op, val). compile_operator col op val) ops)"

text \<open>The condition a non-empty \<^verbatim>\<open>$or\<close>, \<^verbatim>\<open>$and\<close> or \<^verbatim>\<open>$nor\<close> appends, from the compiled
  members of its list.\<close>

definition boolean_condition :: "string \<Rightarrow> expr list \<Rightarrow> error + expr" where
  "boolean_condition col_name cs =
     (if col_name = ''$or''
        then Inr (if length cs > 1 then SelfGroup (Or cs) else Or cs)
      else if col_name = ''$and''
        then Inr (if length cs > 1 then SelfGroup (And cs) else And cs)
      else if col_name = ''$nor''
        then Inr (if length cs > 1 then Invert (SelfGroup (Or cs)) else Invert (Or cs))
      else Inl (KeyError (''Unknown operator '' @ col_name)))"

text \<open>The value returned once the loop is over.\<close>

definition conjunction :: "expr list \<Rightarrow> expr" where
  "conjunction conditions =
     (if conditions \<noteq> [] then
        (if length conditions > 1 then SelfGroup (And conditions) else And conditions)
      else PyTrue)"

definition criteria_keys_ok :: "(string \<times> column) list \<Rightarrow> (string \<times> pyval) list \<Rightarrow> bool" where
  "criteria_keys_ok columns d =
     list_all (\<lambda>k. k \<in> {''$or'', ''$and'', ''$nor'', ''$not''} \<or> k \<in> set (map fst columns))
       (map fst d)"

text \<open>\<open>statetement\<close> is the classmethod of that name; \<open>conditions\<close> is its loop over
  \<^verbatim>\<open>criteria.items()\<close> and \<open>statements\<close> the \<^verbatim>\<open>map\<close> over the members of a boolean
  operator's list. A member that is not a dict has no \<^verbatim>\<open>keys\<close>: \<^verbatim>\<open>AttributeError\<close>.\<close>

fun statetement :: "(string \<times> column) list \<Rightarrow> pyval \<Rightarrow> error + expr"
  and conditions :: "(string \<times> column) list \<Rightarrow> (string \<times> pyval) list \<Rightarrow> error + expr list"
  and statements :: "(string \<times> column) list \<Rightarrow> pyval list \<Rightarrow> error + expr list"
where
  "statetement columns (VDict d) =
     (if \<not> criteria_keys_ok columns d
      then Inl (AssertionError ''Invalid column specified in Criteria'')
      else case conditions columns d of Inl e \<Rightarrow> Inl e | Inr cs \<Rightarrow> Inr (conjunction cs))"
| "statetement columns (VOrderedDict d) =
     (if \<not> criteria_keys_ok columns d
      then Inl (AssertionError ''Invalid column specified in Criteria'')
      else case conditions columns d of Inl e \<Rightarrow> Inl e | Inr cs \<Rightarrow> Inr (conjunction cs))"
| "statetement columns VNone = Inl AttributeError"
| "statetement columns (VBool b) = Inl AttributeError"
| "statetement columns (VInt n) = Inl AttributeError"
| "statetement columns (VStr s) = Inl AttributeError"
| "statetement columns (VList xs) = Inl AttributeError"
| "statetement columns (VTuple xs) = Inl AttributeError"
| "conditions columns [] = Inr []"
| "conditions columns ((col_name, criteria) # rest) =
     (case
        (if col_name \<in> {''$or'', ''$and'', ''$nor''} then
           (case criteria of
              VList xs \<Rightarrow>
                (if xs = [] then Inr []
                 else case statements columns xs of
                        Inl e \<Rightarrow> Inl e
                      | Inr cs \<Rightarrow>
                          (case boolean_condition col_name cs of
                             Inl e \<Rightarrow> Inl e | Inr cc \<Rightarrow> Inr [cc]))
            | VTuple xs \<Rightarrow>
                (if xs = [] then Inr []
                 else case statements columns xs of
                        Inl e \<Rightarrow> Inl e
                      | Inr cs \<Rightarrow>
                          (case boolean_condition col_name cs of
                             Inl e \<Rightarrow> Inl e | Inr cc \<Rightarrow> Inr [cc]))
            | _ \<Rightarrow> Inl (AssertionError (''Criteria: '' @ col_name @ '' argument must be a list'')))
         else if col_name = ''$not'' then
           (if \<not> is_dict criteria
            then Inl (AssertionError ''Criteria: $not argument must be a dict'')
            else case statetement columns criteria of
                   Inl e \<Rightarrow> Inl e | Inr c \<Rightarrow> Inr [Not c])
         else
           (case getitem columns (VStr col_name) of
              Inl e \<Rightarrow> Inl e
            | Inr col \<Rightarrow>
                compile_operators col
                  (if is_dict criteria then dict_items criteria else [(''$eq'', criteria)])))
      of
        Inl e \<Rightarrow> Inl e
      | Inr cs \<Rightarrow>
          (case conditions columns rest of Inl e \<Rightarrow> Inl e | Inr cs' \<Rightarrow> Inr (cs @ cs')))"
| "statements columns [] = Inr []"
| "statements columns (s # ss) =
     (case statetement columns s of
        Inl e \<Rightarrow> Inl e
      | Inr c \<Rightarrow> (case statements columns ss of Inl e \<Rightarrow> Inl e | Inr cs \<Rightarrow> Inr (c # cs)))"

definition MongoCriteria_init :: "pyval \<Rightarrow> error + pyval" where
  "MongoCriteria_init criteria =
     (let c = (if \<not> truthy criteria then VDict [] else criteria)
      in if is_dict c then Inr c else Inl (AssertionError ''Criteria must be one of: None, dict''))"

definition MongoCriteria_call :: "pyval \<Rightarrow> model \<Rightarrow> error + expr" where
  "MongoCriteria_call self m = statetement (model_columns m) self"

section \<open>MongoJoin\<close>

definition MongoJoin_init :: "pyval \<Rightarrow> error + pyval list" where
  "MongoJoin_init relnames =
     (if \<not> (relnames = VNone \<or> is_basestring relnames \<or> is_seq relnames)
      then Inl (AssertionError ''Join must be one of: None, str, list, tuple'')
      else if \<not> truthy relnames then Inr []
      else case relnames of
             VStr s \<Rightarrow> Inr (map VStr (split CHR '','' s))
           | _ \<Rightarrow> Inr (seq_items relnames))"

text \<open>\<^verbatim>\<open>set(relnames)\<close> needs hashable members. The set of the model's relation names is
  iterated in one fixed order, here that of \<open>remdups\<close>; each name is in it once.\<close>

definition MongoJoin_options ::
  "(string \<times> relation) list \<Rightarrow> pyval list \<Rightarrow> error + option_directive list" where
  "MongoJoin_options model_rels relnames =
     (if \<not> list_all hashable relnames then Inl TypeError
      else let model_relnames = remdups (map fst model_rels) in
        if \<not> list_all (names_column model_rels) relnames
        then Inl (AssertionError ''Invalid column specified in MongoJoin'')
        else Inr (map LazyLoad (filter (\<lambda>relname. VStr relname \<notin> set relnames) model_relnames)))"

definition MongoJoin_call :: "pyval list \<Rightarrow> model \<Rightarrow> error + option_directive list" where
  "MongoJoin_call self m = MongoJoin_options (model_relations m) self"

definition compile_join :: "pyval \<Rightarrow> model \<Rightarrow> error + option_directive list" where
  "compile_join relnames m =
     (case MongoJoin_init relnames of Inl e \<Rightarrow> Inl e | Inr self \<Rightarrow> MongoJoin_call self m)"

section \<open>MongoAggregate\<close>

definition MongoAggregate_init :: "pyval \<Rightarrow> error + (string \<times> pyval) list" where
  "MongoAggregate_init agg_spec =
     (let a = (if \<not> truthy agg_spec then VDict [] else agg_spec)
      in if is_dict a then Inr (dict_items a)
         else Inl (AssertionError ''Aggregate spec must be one of: None, dict''))"

text \<open>\<^verbatim>\<open>expression_stmt\<close> is either the Python \<^verbatim>\<open>int\<close> of the special case for count
  (\<open>Inl\<close>) or a backend clause (\<open>Inr\<close>): the later \<^verbatim>\<open>isinstance(expression_stmt, int)\<close>
  tells them apart. \<open>maxint\<close> is \<^verbatim>\<open>sys.maxint\<close>: an integer operand beyond it is a
  \<^verbatim>\<open>long\<close>, which is neither an \<^verbatim>\<open>int\<close>, a string nor a dict.\<close>

definition expression_stmt ::
  "int \<Rightarrow> (string \<times> column) list \<Rightarrow> string \<Rightarrow> pyval \<Rightarrow> error + (pyval + expr)" where
  "expression_stmt maxint columns operator expression =
     (if is_int maxint expression \<and> operator = ''$sum'' then Inr (Inl expression)
      else if is_basestring expression then
        (if str_of expression \<notin> set (map fst columns)
         then Inl (AssertionError (''Aggregate: invalid column `'' @ str_of expression @ ''`''))
         else case getitem columns expression of
                Inl e \<Rightarrow> Inl e | Inr col \<Rightarrow> Inr (Inr (Col col)))
      else if is_dict expression then
        (case statetement columns expression of
           Inl e \<Rightarrow> Inl e | Inr st \<Rightarrow> Inr (Inr (CastInteger st)))
      else Inl (AssertionError
             ''Aggregate: expression should be either a column name, or an object''))"

fun as_clause :: "pyval + expr \<Rightarrow> expr" where
  "as_clause (Inl v) = Lit v"
| "as_clause (Inr e) = e"

definition comp_stmt :: "string \<Rightarrow> pyval + expr \<Rightarrow> error + expr" where
  "comp_stmt operator st =
     (if operator = ''$max'' then Inr (FuncMax (as_clause st))
      else if operator = ''$min'' then Inr (FuncMin (as_clause st))
      else if operator = ''$avg'' then Inr (FuncAvg (as_clause st))
      else if operator = ''$sum'' then
        (case st of
           Inl n \<Rightarrow> Inr (if \<not> eq_int n 1 then Mul FuncCount (Lit n) else FuncCount)
         | Inr e \<Rightarrow> Inr (FuncSum e))
      else Inl (AssertionError
             (''Aggregate: unsupported operator '' @ [CHR 0x22] @ operator @ [CHR 0x22])))"

text \<open>\<^verbatim>\<open>comp_expression.popitem()\<close> on a dict of one entry: the entry, and the dict as it
  is afterwards.\<close>

fun popitem :: "pyval \<Rightarrow> ((string \<times> pyval) \<times> pyval) option" where
  "popitem (VDict [kv]) = Some (kv, VDict [])"
| "popitem (VOrderedDict [kv]) = Some (kv, VOrderedDict [])"
| "popitem v = None"

text \<open>
  One round of the loop of \<^verbatim>\<open>selectables\<close>: the selectable appended (or the exception
  raised) and the object \<^verbatim>\<open>comp_expression\<close> as the round leaves it. The spec's expression
  objects are taken to be separate objects, as parsing JSON creates them.
\<close>

definition selectable ::
  "int \<Rightarrow> (string \<times> column) list \<Rightarrow> string \<Rightarrow> pyval \<Rightarrow> (error + expr) \<times> pyval" where
  "selectable maxint columns comp_field comp_expression =
     (if is_basestring comp_expression then
        (if str_of comp_expression \<notin> set (map fst columns)
         then (Inl (AssertionError
                 (''Aggregate: Invalid column `'' @ str_of comp_expression @ ''`'')),
               comp_expression)
         else (case getitem columns comp_expression of
                 Inl e \<Rightarrow> Inl e | Inr col \<Rightarrow> Inr (Label (Col col) comp_field),
               comp_expression))
      else if \<not> is_dict comp_expression then
        (Inl (AssertionError
           ''Aggregate: Expression should be either a column name, or an object''),
         comp_expression)
      else case popitem comp_expression of
        None \<Rightarrow>
          (Inl (AssertionError ''Aggregate: expression can only contain a single operator''),
           comp_expression)
      | Some ((operator, expression), emptied) \<Rightarrow>
          (case expression_stmt maxint columns operator expression of
             Inl e \<Rightarrow> Inl e
           | Inr st \<Rightarrow>
               (case comp_stmt operator st of
                  Inl e \<Rightarrow> Inl e | Inr c \<Rightarrow> Inr (Label c comp_field)),
           emptied))"

text \<open>\<^verbatim>\<open>selectables\<close>: the list returned (or the exception) and the spec as the call
  leaves it. A round that raises ends the loop; what earlier rounds popped stays popped.\<close>

fun MongoAggregate_selectables ::
  "int \<Rightarrow> (string \<times> column) list \<Rightarrow> (string \<times> pyval) list \<Rightarrow>
     (error + expr list) \<times> (string \<times> pyval) list" where
  "MongoAggregate_selectables maxint columns [] = (Inr [], [])"
| "MongoAggregate_selectables maxint columns ((comp_field, comp_expression) # rest) =
     (case selectable maxint columns comp_field comp_expression of
        (Inl e, after) \<Rightarrow> (Inl e, (comp_field, after) # rest)
      | (Inr sel, after) \<Rightarrow>
          (case MongoAggregate_selectables maxint columns rest of
             (Inl e, rest') \<Rightarrow> (Inl e, (comp_field, after) # rest')
           | (Inr sels, rest') \<Rightarrow> (Inr (sel # sels), (comp_field, after) # rest')))"

definition MongoAggregate_call ::
  "int \<Rightarrow> (string \<times> pyval) list \<Rightarrow> model \<Rightarrow> (error + expr list) \<times> (string \<times> pyval) list" where
  "MongoAggregate_call maxint self m = MongoAggregate_selectables maxint (model_columns m) self"

section \<open>An example schema\<close>

text \<open>Columns \<open>id\<close>, \<open>name\<close>, \<open>age\<close> (scalars) and \<open>tags\<close> (an array of strings), and the
  relations \<open>posts\<close> and \<open>profile\<close>: the inputs of the concrete evaluations below.\<close>

definition scenario_columns :: "(string \<times> column) list" where
  "scenario_columns =
     [(''id'', Column ''id'' (Plain ''int'')),
      (''name'', Column ''name'' (Plain ''str'')),
      (''age'', Column ''age'' (Plain ''int'')),
      (''tags'', Column ''tags'' (ARRAY (Plain ''str'')))]"

definition scenario_model :: model where
  "scenario_model =
     \<lparr>model_columns = scenario_columns,
      model_relations = [(''posts'', Relation ''posts''), (''profile'', Relation ''profile'')]\<rparr>"

text \<open>\<^verbatim>\<open>sys.maxint\<close> of a 64-bit build of Python 2.\<close>

definition maxint_64 :: int where
  "maxint_64 = 9223372036854775807"

section \<open>Auxiliary facts\<close>

lemma sequence_map_Inr:
  "(\<And>x. x \<in> set xs \<Longrightarrow> f x = Inr (g x)) \<Longrightarrow> sequence (map f xs) = Inr (map g xs)"
  by (induction xs) auto

lemma getitem_present:
  "name \<in> set (map fst d) \<Longrightarrow> getitem d (VStr name) = Inr (the (map_of d name))"
  by (auto simp: map_of_eq_None_iff split: option.splits)

lemma map_of_Some_key:
  assumes "map_of d k = Some x"
  shows "k \<in> set (map fst d)"
  using assms by (metis map_of_eq_None_iff option.distinct(1) set_map)

lemma distinct_singleton:
  assumes "distinct xs \<and> set xs = {x}"
  shows "xs = [x]"
proof -
  from assms have "length xs = 1"
    using distinct_card [of xs] by simp
  then obtain y where "xs = [y]"
    by (cases xs) auto
  with assms show ?thesis by simp
qed

section \<open>Projection: the empty request\<close>

text \<open>
  Claim C1, as the code has it. An empty projection (\<^verbatim>\<open>None\<close>, the empty string, the
  empty list, the empty dict) is parsed to exclusion mode with nothing excluded, and
  compiling it on any model emits one load-only directive for every column of the model,
  in the order of the model's columns. The plan is empty only for a model without columns.
\<close>

theorem C1_empty_projection_loads_every_column:
  "compile_projection VNone m = Inr (map (\<lambda>(name, col). LoadOnly col) (model_columns m))
   \<and> compile_projection (VStr []) m = Inr (map (\<lambda>(name, col). LoadOnly col) (model_columns m))
   \<and> compile_projection (VList []) m = Inr (map (\<lambda>(name, col). LoadOnly col) (model_columns m))
   \<and> compile_projection (VDict []) m = Inr (map (\<lambda>(name, col). LoadOnly col) (model_columns m))"
  by (simp add: compile_projection_def MongoProjection_init_def MongoProjection_call_def
      MongoProjection_options_def MongoProjection_columns_def case_prod_unfold)

text \<open>Against C1 as stated: on a model with the one column \<open>id\<close>, the plan of the empty
  projection is not the empty sequence.\<close>

theorem C1_empty_projection_counterexample:
  "compile_projection VNone
     \<lparr>model_columns = [(''id'', Column ''id'' (Plain ''int''))], model_relations = []\<rparr>
     = Inr [LoadOnly (Column ''id'' (Plain ''int''))]
   \<and> compile_projection VNone
     \<lparr>model_columns = [(''id'', Column ''id'' (Plain ''int''))], model_relations = []\<rparr>
     \<noteq> Inr []"
  by (simp add: compile_projection_def MongoProjection_init_def MongoProjection_call_def
      MongoProjection_options_def MongoProjection_columns_def)

section \<open>Group: directions\<close>

lemma check_directions_True:
  "check_directions g = Inr True \<Longrightarrow> list_all (\<lambda>(name, d). eq_int d 1 \<or> eq_int d (- 1)) g"
  by (induction g rule: check_directions.induct) (auto split: if_splits)

lemma MongoSort_init_directions:
  assumes "MongoSort_init cls spec = Inr g"
  shows "list_all (\<lambda>(name, d). eq_int d 1 \<or> eq_int d (- 1)) g"
proof -
  from assms have "check_directions g = Inr True"
    by (auto simp: MongoSort_init_def Let_def split: sum.splits pyval.splits if_splits)
  then show ?thesis by (rule check_directions_True)
qed

lemma MongoSort_columns_plan:
  "MongoSort_columns cls columns g =
     (if set (map fst g) \<subseteq> set (map fst columns)
      then Inr (map (\<lambda>(name, d). if eq_int d (- 1) then Desc (Col (the (map_of columns name)))
                                  else Col (the (map_of columns name))) g)
      else Inl (AssertionError (''Invalid column specified in '' @ cls)))"
proof (cases "set (map fst g) \<subseteq> set (map fst columns)")
  case True
  have "sequence (map (\<lambda>(name, d).
             case getitem columns (VStr name) of
               Inl e \<Rightarrow> Inl e
             | Inr col \<Rightarrow> Inr (if eq_int d (- 1) then Desc (Col col) else Col col)) g)
       = Inr (map (\<lambda>(name, d). if eq_int d (- 1) then Desc (Col (the (map_of columns name)))
                                  else Col (the (map_of columns name))) g)"
  proof (rule sequence_map_Inr)
    fix x assume "x \<in> set g"
    with True have "fst x \<in> set (map fst columns)" by auto
    then show "(case x of (name, d) \<Rightarrow>
             case getitem columns (VStr name) of
               Inl e \<Rightarrow> Inl e
             | Inr col \<Rightarrow> Inr (if eq_int d (- 1) then Desc (Col col) else Col col))
        = Inr (case x of (name, d) \<Rightarrow> if eq_int d (- 1) then Desc (Col (the (map_of columns name)))
                                  else Col (the (map_of columns name)))"
      by (cases x) (simp add: getitem_present del: getitem.simps)
  qed
  with True show ?thesis
    by (simp add: MongoSort_columns_def list_all_iff subset_iff)
next
  case False
  then show ?thesis
    by (auto simp: MongoSort_columns_def list_all_iff)
qed

lemma group_example:
  "MongoGroup_init (VStr ''age-,name'') = Inr [(''age'', VInt (- 1)), (''name'', VInt 1)]"
  by code_simp

text \<open>
  Claim C2, as the code has it. \<^verbatim>\<open>MongoGroup\<close> compiles with the inherited
  \<^verbatim>\<open>MongoSort.columns\<close>: when a group specification parses to the entries \<open>g\<close>, every
  direction is +1 or -1, and the plan has one key per entry, in order, which is the column
  handle for direction +1 and the descending-wrapped handle for direction -1; a name that is
  no column of the model fails with the invalid-column assertion.
\<close>

theorem C2_group_plan_keeps_direction:
  assumes "MongoGroup_init spec = Inr g"
  shows "list_all (\<lambda>(name, d). eq_int d 1 \<or> eq_int d (- 1)) g
    \<and> compile_group spec m =
     (if set (map fst g) \<subseteq> set (map fst (model_columns m))
      then Inr (map (\<lambda>(name, d). if eq_int d (- 1)
                                  then Desc (Col (the (map_of (model_columns m) name)))
                                  else Col (the (map_of (model_columns m) name))) g)
      else Inl (AssertionError ''Invalid column specified in MongoGroup''))"
  using assms MongoSort_init_directions [of "''MongoGroup''" spec g]
  by (simp add: compile_group_def MongoGroup_call_def MongoSort_columns_plan MongoGroup_init_def)

text \<open>The group specification \<^verbatim>\<open>"age-,name"\<close> on the example schema.\<close>

theorem C2_group_plan_witness:
  "MongoGroup_init (VStr ''age-,name'') = Inr [(''age'', VInt (- 1)), (''name'', VInt 1)]
   \<and> compile_group (VStr ''age-,name'') scenario_model =
       Inr [Desc (Col (Column ''age'' (Plain ''int''))), Col (Column ''name'' (Plain ''str''))]"
  using C2_group_plan_keeps_direction [OF group_example, of scenario_model] group_example
  by (simp add: scenario_model_def scenario_columns_def eq_int_def)

text \<open>Against C2 as stated: the group entry \<^verbatim>\<open>"age-"\<close> emits the descending-wrapped key,
  not the bare column handle.\<close>

theorem C2_group_direction_counterexample:
  "compile_group (VStr ''age-'') scenario_model = Inr [Desc (Col (Column ''age'' (Plain ''int'')))]
   \<and> compile_group (VStr ''age-'') scenario_model \<noteq> Inr [Col (Column ''age'' (Plain ''int''))]"
  by code_simp

section \<open>Aggregate: the spec after compiling\<close>

text \<open>
  Claim C3, evaluated on the code. Compiling the aggregate spec \<^verbatim>\<open>{n: {$sum: 1}}\<close> returns
  \<^verbatim>\<open>count()\<close> labelled \<open>n\<close> and leaves the spec as \<^verbatim>\<open>{n: {}}\<close>: \<^verbatim>\<open>popitem\<close>
  has removed the operator from the expression object. Compiling the spec as it was left
  raises the single-operator assertion, so the second compilation does not give the plan of
  the first. This is so on every platform, whatever \<^verbatim>\<open>sys.maxint\<close> is.
\<close>

theorem C3_aggregate_compile_empties_expression:
  assumes "1 \<le> maxint"
  shows "MongoAggregate_selectables maxint scenario_columns [(''n'', VDict [(''$sum'', VInt 1)])]
     = (Inr [Label FuncCount ''n''], [(''n'', VDict [])])
   \<and> MongoAggregate_selectables maxint scenario_columns [(''n'', VDict [])]
     = (Inl (AssertionError ''Aggregate: expression can only contain a single operator''),
        [(''n'', VDict [])])"
  using assms by (simp add: selectable_def expression_stmt_def comp_stmt_def eq_int_def)

text \<open>On a 64-bit build.\<close>

theorem C3_aggregate_compile_witness:
  "1 \<le> maxint_64
   \<and> MongoAggregate_selectables maxint_64 scenario_columns [(''n'', VDict [(''$sum'', VInt 1)])]
     = (Inr [Label FuncCount ''n''], [(''n'', VDict [])])
   \<and> MongoAggregate_selectables maxint_64 scenario_columns [(''n'', VDict [])]
     = (Inl (AssertionError ''Aggregate: expression can only contain a single operator''),
        [(''n'', VDict [])])"
proof -
  have h: "1 \<le> maxint_64" by (simp add: maxint_64_def)
  from C3_aggregate_compile_empties_expression [OF h] h show ?thesis by simp
qed

text \<open>The same on any schema and any entry: an expression object of one operator is left
  empty, and an empty expression object fails the single-operator assertion.\<close>

lemma selectable_pops_operator:
  "snd (selectable maxint columns comp_field (VDict [(operator, expression)])) = VDict []"
  "fst (selectable maxint columns comp_field (VDict [])) =
     Inl (AssertionError ''Aggregate: expression can only contain a single operator'')"
  by (simp_all add: selectable_def split: sum.splits)

section \<open>Projection: dict values\<close>

text \<open>
  Claim C4, evaluated on the code. The dict projection \<^verbatim>\<open>{a: 2, b: 0}\<close> mixes a truthy and
  a falsy value; its values sum to 2, the number of its entries, so the assertion on the sum
  passes: the projection is accepted, in inclusion mode, with the value 0 of \<open>b\<close> kept.
\<close>

theorem C4_mixed_dict_projection_accepted:
  "MongoProjection_init (VDict [(''a'', VInt 2), (''b'', VInt 0)])
     = Inr \<lparr>inclusion_mode = True,
            projection = [(VStr ''a'', VInt 2), (VStr ''b'', VInt 0)]\<rparr>"
  by (simp add: MongoProjection_init_def projection_of_dict_def)

text \<open>When every value is the integer 0 or 1 the check on the sum does separate the mixed
  dicts from the others: the dict is accepted exactly when its values are all 0 or all 1,
  and the mode is inclusion exactly when some value is 1.\<close>

lemma py_sum_zero_one:
  "list_all (\<lambda>v. v = VInt 0 \<or> v = VInt 1) vs \<Longrightarrow>
     py_sum acc vs = Inr (acc + int (length (filter (\<lambda>v. v = VInt 1) vs)))"
  by (induction vs arbitrary: acc) auto

lemma no_ones_iff_zeros:
  "list_all (\<lambda>v. v = VInt 0 \<or> v = VInt 1) vs \<Longrightarrow>
     (filter (\<lambda>v. v = VInt 1) vs = []) = list_all (\<lambda>v. v = VInt 0) vs"
  by (induction vs) auto

lemma truthy_zero_one:
  "list_all (\<lambda>v. v = VInt 0 \<or> v = VInt 1) vs \<Longrightarrow>
     list_ex truthy vs = list_ex (\<lambda>v. v = VInt 1) vs"
  by (induction vs) auto

lemma filter_all_iff:
  "(length (filter P vs) = length vs) = list_all P vs"
proof (cases "\<forall>x \<in> set vs. P x")
  case True
  then show ?thesis by (simp add: list_all_iff)
next
  case False
  then obtain x where "x \<in> set vs" and "\<not> P x" by auto
  then have "length (filter P vs) < length vs" by (rule length_filter_less)
  with False show ?thesis by (simp add: list_all_iff)
qed

lemma dict_sum_check:
  assumes "list_all (\<lambda>v. v = VInt 0 \<or> v = VInt 1) vs"
  shows "\<exists>n. py_sum 0 vs = Inr n
           \<and> (n = 0) = list_all (\<lambda>v. v = VInt 0) vs
           \<and> (n = int (length vs)) = list_all (\<lambda>v. v = VInt 1) vs"
proof -
  let ?n = "length (filter (\<lambda>v. v = VInt 1) vs)"
  have "py_sum 0 vs = Inr (int ?n)"
    using py_sum_zero_one [OF assms, of 0] by simp
  moreover have "(int ?n = 0) = list_all (\<lambda>v. v = VInt 0) vs"
    using no_ones_iff_zeros [OF assms] by simp
  moreover have "(int ?n = int (length vs)) = list_all (\<lambda>v. v = VInt 1) vs"
    using filter_all_iff [of "\<lambda>v. v = VInt 1" vs] by simp
  ultimately show ?thesis by blast
qed

lemma projection_of_dict_zero_one:
  assumes "list_all (\<lambda>v. v = VInt 0 \<or> v = VInt 1) (map snd d)"
  shows "projection_of_dict d =
     (if list_all (\<lambda>v. v = VInt 0) (map snd d) \<or> list_all (\<lambda>v. v = VInt 1) (map snd d)
      then Inr \<lparr>inclusion_mode = list_ex (\<lambda>v. v = VInt 1) (map snd d),
                projection = map (\<lambda>(k, v). (VStr k, v)) d\<rparr>
      else Inl (AssertionError ''Dict projection values shall be all 0s or all 1s''))"
proof -
  from dict_sum_check [OF assms] obtain n where s: "py_sum 0 (map snd d) = Inr n"
    and z: "(n = 0) = list_all (\<lambda>v. v = VInt 0) (map snd d)"
    and a: "(n = int (length (map snd d))) = list_all (\<lambda>v. v = VInt 1) (map snd d)"
    by blast
  from a have a': "(n = int (length d)) = list_all (\<lambda>v. v = VInt 1) (map snd d)"
    by simp
  show ?thesis
    unfolding projection_of_dict_def s truthy_zero_one [OF assms] sum.case z a'
    by (rule refl)
qed

section \<open>Criteria: \<^verbatim>\<open>$ne\<close>\<close>

lemma compile_operator_ne:
  "compile_operator col ''$ne'' v =
     Inr (if is_array (col_type col) \<and> \<not> is_seq v then AllNe (Col col) (Lit v)
          else if is_array (col_type col)
            then Ne (Col col) (CastArray (seq_items v) (item_type (col_type col)))
          else Ne (Col col) (Lit v))"
  by (simp add: compile_operator_def Let_def)

text \<open>
  Claim C5. For a column \<open>col\<close> and any operand \<open>v\<close>, the operator \<^verbatim>\<open>$ne\<close> compiles to
  \<^verbatim>\<open>ALL(array) != v\<close> when the column is an array and \<open>v\<close> is not a list, and to the plain
  inequality of the column and the operand in every other case: with a scalar column the
  operand is \<open>v\<close> itself, with an array column and a list operand it is the list cast to the
  column's array type. The criteria \<^verbatim>\<open>{name: {$ne: v}}\<close> on a column \<open>name\<close> of the schema
  compiles to exactly that predicate (as the one member of the conjunction).
\<close>

theorem C5_ne_on_array_and_scalar_columns:
  assumes "map_of columns name = Some col"
    and "name \<notin> {''$or'', ''$and'', ''$nor'', ''$not''}"
  shows "compile_operator col ''$ne'' v =
     Inr (if is_array (col_type col) \<and> \<not> is_seq v then AllNe (Col col) (Lit v)
          else if is_array (col_type col)
            then Ne (Col col) (CastArray (seq_items v) (item_type (col_type col)))
          else Ne (Col col) (Lit v))
   \<and> statetement columns (VDict [(name, VDict [(''$ne'', v)])]) =
     Inr (And [if is_array (col_type col) \<and> \<not> is_seq v then AllNe (Col col) (Lit v)
          else if is_array (col_type col)
            then Ne (Col col) (CastArray (seq_items v) (item_type (col_type col)))
          else Ne (Col col) (Lit v)])"
proof -
  from assms(1) have "name \<in> set (map fst columns)"
    by (rule map_of_Some_key)
  with assms show ?thesis
    by (simp add: compile_operator_ne criteria_keys_ok_def compile_operators_def conjunction_def)
qed

text \<open>On the example schema: the array column \<open>tags\<close> with a scalar and with a list operand,
  and the scalar column \<open>name\<close>.\<close>

theorem C5_ne_witness:
  "map_of scenario_columns ''tags'' = Some (Column ''tags'' (ARRAY (Plain ''str'')))
   \<and> map_of scenario_columns ''name'' = Some (Column ''name'' (Plain ''str''))
   \<and> statetement scenario_columns (VDict [(''tags'', VDict [(''$ne'', VStr ''a'')])]) =
       Inr (And [AllNe (Col (Column ''tags'' (ARRAY (Plain ''str'')))) (Lit (VStr ''a''))])
   \<and> statetement scenario_columns (VDict [(''tags'', VDict [(''$ne'', VList [VStr ''a''])])]) =
       Inr (And [Ne (Col (Column ''tags'' (ARRAY (Plain ''str''))))
                    (CastArray [VStr ''a''] (Plain ''str''))])
   \<and> statetement scenario_columns (VDict [(''name'', VDict [(''$ne'', VStr ''x'')])]) =
       Inr (And [Ne (Col (Column ''name'' (Plain ''str''))) (Lit (VStr ''x''))])"
proof -
  have t: "map_of scenario_columns ''tags'' = Some (Column ''tags'' (ARRAY (Plain ''str'')))"
    and n: "map_of scenario_columns ''name'' = Some (Column ''name'' (Plain ''str''))"
    by (simp_all add: scenario_columns_def)
  have t': "''tags'' \<notin> {''$or'', ''$and'', ''$nor'', ''$not''}"
    and n': "''name'' \<notin> {''$or'', ''$and'', ''$nor'', ''$not''}"
    by simp_all
  from C5_ne_on_array_and_scalar_columns [OF t t', of "VStr ''a''"]
       C5_ne_on_array_and_scalar_columns [OF t t', of "VList [VStr ''a'']"]
       C5_ne_on_array_and_scalar_columns [OF n n', of "VStr ''x''"] t n
  show ?thesis by simp
qed

section \<open>Criteria: the message of \<^verbatim>\<open>$size\<close>\<close>

text \<open>
  Claim C6, evaluated on the code. \<^verbatim>\<open>$size\<close> on the scalar column \<open>age\<close> fails, and the
  assertion raised names \<^verbatim>\<open>$all\<close>, not the operator \<^verbatim>\<open>$size\<close> that was applied.
\<close>

theorem C6_size_error_names_all:
  "statetement scenario_columns (VDict [(''age'', VDict [(''$size'', VInt 1)])])
     = Inl (AssertionError ''Criteria: $all can only be applied to an array column'')"
  by code_simp

text \<open>The three sibling checks carry their own operator.\<close>

lemma operator_constraint_messages:
  "\<not> is_array (col_type col) \<Longrightarrow> compile_operator col ''$all'' v =
     Inl (AssertionError ''Criteria: $all can only be applied to an array column'')"
  "\<not> is_seq v \<Longrightarrow> compile_operator col ''$in'' v =
     Inl (AssertionError ''Criteria: $in argument must be a list'')"
  "\<not> is_seq v \<Longrightarrow> compile_operator col ''$nin'' v =
     Inl (AssertionError ''Criteria: $nin argument must be a list'')"
  by (simp_all add: compile_operator_def Let_def)

section \<open>Aggregate: the operands of \<^verbatim>\<open>$sum\<close>\<close>





text \<open>An integer operand beyond \<^verbatim>\<open>sys.maxint\<close> is a \<^verbatim>\<open>long\<close>: it is not taken for the count
  and ends in the assertion on the shape of the expression.\<close>

lemma selectable_sum_long:
  assumes "n < - maxint - 1 \<or> maxint < n"
  shows "selectable maxint columns label (VDict [(''$sum'', VInt n)]) =
     (Inl (AssertionError ''Aggregate: expression should be either a column name, or an object''),
      VDict [])"
  using assms by (auto simp: selectable_def expression_stmt_def)




section \<open>Join: the relations left to lazy loading\<close>

lemma names_column_strs:
  "list_all (names_column d) (map VStr ns) \<longleftrightarrow> set ns \<subseteq> set (map fst d)"
  by (induction ns) auto

lemma hashable_strs: "list_all hashable (map VStr ns)"
  by (induction ns) auto

lemma MongoJoin_options_strs:
  "MongoJoin_options rels (map VStr ns) =
     (if set ns \<subseteq> set (map fst rels)
      then Inr (map LazyLoad (filter (\<lambda>r. r \<notin> set ns) (remdups (map fst rels))))
      else Inl (AssertionError ''Invalid column specified in MongoJoin''))"
proof -
  have "(\<lambda>relname. VStr relname \<notin> set (map VStr ns)) = (\<lambda>r. r \<notin> set ns)"
    by auto
  then show ?thesis
    by (simp add: MongoJoin_options_def names_column_strs hashable_strs Let_def del: set_map)
qed

text \<open>The accepted surface forms of a join request and the names each requests.\<close>

lemma MongoJoin_init_forms:
  "MongoJoin_init VNone = Inr (map VStr [])"
  "MongoJoin_init (VStr s) = Inr (map VStr (if s = [] then [] else split CHR '','' s))"
  "MongoJoin_init (VList (map VStr ns)) = Inr (map VStr ns)"
  "MongoJoin_init (VTuple (map VStr ns)) = Inr (map VStr ns)"
  by (auto simp: MongoJoin_init_def)

text \<open>
  Claim C8. Let a join request parse to the relation names \<open>ns\<close>. When every name in
  \<open>ns\<close> is a relation of the model, compiling succeeds, and the plan holds a lazy-load
  directive for exactly the relations of the model that are not in \<open>ns\<close>, each once (so no
  requested relation is in it). When some name in \<open>ns\<close> is no relation of the model,
  compiling fails with the assertion of \<^verbatim>\<open>MongoJoin\<close> on the names.
\<close>

theorem C8_join_lazyloads_the_other_relations:
  assumes "MongoJoin_init req = Inr (map VStr ns)"
  shows "if set ns \<subseteq> set (map fst (model_relations m))
         then \<exists>plan. compile_join req m = Inr plan \<and> distinct plan
                \<and> set plan = LazyLoad ` (set (map fst (model_relations m)) - set ns)
         else compile_join req m = Inl (AssertionError ''Invalid column specified in MongoJoin'')"
proof (cases "set ns \<subseteq> set (map fst (model_relations m))")
  case True
  let ?plan = "map LazyLoad (filter (\<lambda>r. r \<notin> set ns) (remdups (map fst (model_relations m))))"
  have "compile_join req m = Inr ?plan"
    using assms True by (simp add: compile_join_def MongoJoin_call_def MongoJoin_options_strs)
  moreover have "distinct ?plan"
    by (simp add: distinct_map inj_on_def)
  moreover have "set ?plan = LazyLoad ` (set (map fst (model_relations m)) - set ns)"
    by auto
  ultimately show ?thesis using True by simp
next
  case False
  then show ?thesis
    using assms by (simp add: compile_join_def MongoJoin_call_def MongoJoin_options_strs)
qed

text \<open>On the example schema: the request \<^verbatim>\<open>["posts"]\<close> leaves \<open>profile\<close> to lazy loading, and
  the request \<^verbatim>\<open>"posts,authors"\<close> names a relation the model does not have.\<close>

theorem C8_join_witness:
  "MongoJoin_init (VList [VStr ''posts'']) = Inr (map VStr [''posts''])
   \<and> compile_join (VList [VStr ''posts'']) scenario_model = Inr [LazyLoad ''profile'']
   \<and> MongoJoin_init (VStr ''posts,authors'') = Inr (map VStr [''posts'', ''authors''])
   \<and> compile_join (VStr ''posts,authors'') scenario_model =
       Inl (AssertionError ''Invalid column specified in MongoJoin'')"
proof -
  have a: "MongoJoin_init (VList [VStr ''posts'']) = Inr (map VStr [''posts''])"
    by (simp add: MongoJoin_init_def)
  have b: "MongoJoin_init (VStr ''posts,authors'') = Inr (map VStr [''posts'', ''authors''])"
    by code_simp
  have s: "LazyLoad ` ({''posts'', ''profile''} - {''posts''}) = {LazyLoad ''profile''}"
    by auto
  from C8_join_lazyloads_the_other_relations [OF a, of scenario_model]
  obtain plan where r: "compile_join (VList [VStr ''posts'']) scenario_model = Inr plan"
    and d: "distinct plan \<and> set plan = {LazyLoad ''profile''}"
    using s by (auto simp: scenario_model_def)
  from d have "plan = [LazyLoad ''profile'']"
    by (rule distinct_singleton)
  with r have "compile_join (VList [VStr ''posts'']) scenario_model = Inr [LazyLoad ''profile'']"
    by simp
  moreover from C8_join_lazyloads_the_other_relations [OF b, of scenario_model]
  have "compile_join (VStr ''posts,authors'') scenario_model =
       Inl (AssertionError ''Invalid column specified in MongoJoin'')"
    by (simp add: scenario_model_def)
  ultimately show ?thesis using a b by simp
qed

section \<open>Projection: the four surface forms\<close>

lemma split_acc_no_sep:
  "c \<notin> set s \<Longrightarrow> split_acc c acc s = [rev acc @ s]"
  by (induction s arbitrary: acc) auto

lemma split_acc_sep:
  "c \<notin> set a \<Longrightarrow> split_acc c acc (a @ c # rest) = (rev acc @ a) # split_acc c [] rest"
  by (induction a arbitrary: acc) auto

lemma split_two:
  assumes "c \<notin> set a" and "c \<notin> set b"
  shows "split c (a @ c # b) = [a, b]"
  using assms by (simp add: split_def split_acc_sep split_acc_no_sep)

lemma projection_of_two_keys:
  "projection_of_keys [VStr a, VStr b] (VInt 1) =
     Inr (if a = b then [(VStr a, VInt 1)] else [(VStr a, VInt 1), (VStr b, VInt 1)])"
  by (simp add: projection_of_keys_def dict_of_def py_eq_def)

lemma projection_string_two:
  assumes "CHR '','' \<notin> set a" and "CHR '','' \<notin> set b"
    and "a = [] \<or> (hd a \<noteq> CHR ''+'' \<and> hd a \<noteq> CHR ''-'')"
  shows "MongoProjection_init (VStr (a @ '','' @ b)) =
     Inr \<lparr>inclusion_mode = True,
          projection = (if a = b then [(VStr a, VInt 1)] else [(VStr a, VInt 1), (VStr b, VInt 1)])\<rparr>"
proof (cases a)
  case Nil
  with assms(2) show ?thesis
    using split_two [of "CHR '',''" "[]" b]
    by (simp add: MongoProjection_init_def projection_of_two_keys del: split_acc.simps)
next
  case (Cons x xs)
  with assms(3) have x: "x \<noteq> CHR ''+''" "x \<noteq> CHR ''-''" by auto
  from assms(1,2) have "split CHR '','' ((x # xs) @ CHR '','' # b) = [x # xs, b]"
    unfolding Cons by (rule split_two)
  then have "split CHR '','' (x # xs @ CHR '','' # b) = [x # xs, b]" by simp
  with x Cons show ?thesis
    using projection_of_two_keys [of "x # xs" b]
    by (simp add: MongoProjection_init_def del: split_acc.simps)
qed

lemma projection_plus_string_two:
  assumes "CHR '','' \<notin> set a" and "CHR '','' \<notin> set b"
  shows "MongoProjection_init (VStr (''+'' @ a @ '','' @ b)) =
     Inr \<lparr>inclusion_mode = True,
          projection = (if a = b then [(VStr a, VInt 1)] else [(VStr a, VInt 1), (VStr b, VInt 1)])\<rparr>"
  using split_two [OF assms]
  by (simp add: MongoProjection_init_def projection_of_two_keys del: split_acc.simps)

lemma projection_list_two:
  "MongoProjection_init (VList [VStr a, VStr b]) =
     Inr \<lparr>inclusion_mode = True,
          projection = (if a = b then [(VStr a, VInt 1)] else [(VStr a, VInt 1), (VStr b, VInt 1)])\<rparr>"
  by (simp add: MongoProjection_init_def projection_of_two_keys)

lemma projection_dict_two:
  "MongoProjection_init (VDict (dict_of (=) [(a, VInt 1), (b, VInt 1)])) =
     Inr \<lparr>inclusion_mode = True,
          projection = (if a = b then [(VStr a, VInt 1)] else [(VStr a, VInt 1), (VStr b, VInt 1)])\<rparr>"
  by (simp add: MongoProjection_init_def projection_of_dict_def dict_of_def)

text \<open>
  Claim C9, as the code has it. Let \<open>a\<close> and \<open>b\<close> be field names without a comma, \<open>a\<close> not
  starting with \<^verbatim>\<open>+\<close> or \<^verbatim>\<open>-\<close>. Then the string \<^verbatim>\<open>"a,b"\<close>, the list \<^verbatim>\<open>["a","b"]\<close>, the
  dict \<^verbatim>\<open>{a:1,b:1}\<close> and the signed string \<^verbatim>\<open>"+a,b"\<close> parse to the same projection, in
  inclusion mode with the fields \<open>a\<close> and \<open>b\<close> mapped to 1, and so compile to the same
  result on every model.
\<close>

theorem C9_projection_forms_agree:
  assumes "CHR '','' \<notin> set a" and "CHR '','' \<notin> set b"
    and "a = [] \<or> (hd a \<noteq> CHR ''+'' \<and> hd a \<noteq> CHR ''-'')"
  shows "MongoProjection_init (VStr (a @ '','' @ b)) =
           Inr \<lparr>inclusion_mode = True,
                projection = (if a = b then [(VStr a, VInt 1)]
                              else [(VStr a, VInt 1), (VStr b, VInt 1)])\<rparr>
    \<and> MongoProjection_init (VList [VStr a, VStr b]) = MongoProjection_init (VStr (a @ '','' @ b))
    \<and> MongoProjection_init (VDict (dict_of (=) [(a, VInt 1), (b, VInt 1)]))
        = MongoProjection_init (VStr (a @ '','' @ b))
    \<and> MongoProjection_init (VStr (''+'' @ a @ '','' @ b)) = MongoProjection_init (VStr (a @ '','' @ b))
    \<and> compile_projection (VList [VStr a, VStr b]) m = compile_projection (VStr (a @ '','' @ b)) m
    \<and> compile_projection (VDict (dict_of (=) [(a, VInt 1), (b, VInt 1)])) m
        = compile_projection (VStr (a @ '','' @ b)) m
    \<and> compile_projection (VStr (''+'' @ a @ '','' @ b)) m = compile_projection (VStr (a @ '','' @ b)) m"
  unfolding compile_projection_def
    projection_string_two [OF assms] projection_plus_string_two [OF assms(1,2)]
    projection_list_two projection_dict_two
  by simp

text \<open>The fields \<open>name\<close> and \<open>age\<close>.\<close>

theorem C9_projection_forms_witness:
  "CHR '','' \<notin> set ''name'' \<and> CHR '','' \<notin> set ''age''
   \<and> hd ''name'' \<noteq> CHR ''+'' \<and> hd ''name'' \<noteq> CHR ''-''
   \<and> MongoProjection_init (VStr ''name,age'') =
       Inr \<lparr>inclusion_mode = True, projection = [(VStr ''name'', VInt 1), (VStr ''age'', VInt 1)]\<rparr>
   \<and> MongoProjection_init (VList [VStr ''name'', VStr ''age'']) = MongoProjection_init (VStr ''name,age'')
   \<and> MongoProjection_init (VDict [(''name'', VInt 1), (''age'', VInt 1)]) = MongoProjection_init (VStr ''name,age'')
   \<and> MongoProjection_init (VStr ''+name,age'') = MongoProjection_init (VStr ''name,age'')"
proof -
  have a: "CHR '','' \<notin> set ''name''" and b: "CHR '','' \<notin> set ''age''"
    and c: "''name'' = [] \<or> (hd ''name'' \<noteq> CHR ''+'' \<and> hd ''name'' \<noteq> CHR ''-'')"
    by simp_all
  from C9_projection_forms_agree [OF a b c] a b
  show ?thesis by (simp add: dict_of_def)
qed

text \<open>Against C9 as stated: for the field names \<^verbatim>\<open>-x\<close> and \<^verbatim>\<open>b\<close> the string form is an
  exclusion of \<open>x\<close> and \<open>b\<close>, the list form an inclusion of \<^verbatim>\<open>-x\<close> and \<open>b\<close>.\<close>

theorem C9_signed_name_counterexample:
  "MongoProjection_init (VStr (''-x'' @ '','' @ ''b'')) =
     Inr \<lparr>inclusion_mode = False, projection = [(VStr ''x'', VInt 0), (VStr ''b'', VInt 0)]\<rparr>
   \<and> MongoProjection_init (VList [VStr ''-x'', VStr ''b'']) =
     Inr \<lparr>inclusion_mode = True, projection = [(VStr ''-x'', VInt 1), (VStr ''b'', VInt 1)]\<rparr>
   \<and> MongoProjection_init (VStr (''-x'' @ '','' @ ''b'')) \<noteq>
       MongoProjection_init (VList [VStr ''-x'', VStr ''b''])"
  by code_simp

section \<open>Sort: empty tokens\<close>

text \<open>
  Claim C10, evaluated on the code. The sort string \<^verbatim>\<open>"a,,b"\<close> splits into the tokens
  \<open>a\<close>, the empty string and \<open>b\<close>; taking the last character of the empty token raises
  \<^verbatim>\<open>IndexError\<close>, which is what the parser ends with.
\<close>

theorem C10_empty_sort_token_IndexError:
  "MongoSort_init ''MongoSort'' (VStr ''a,,b'') = Inl IndexError"
  by code_simp

text \<open>The same for every sort or group string with an empty token.\<close>

lemma sequence_first_failure:
  assumes "\<And>x. x \<in> set xs \<Longrightarrow> f x = Inl e \<or> (\<exists>y. f x = Inr y)"
    and "\<exists>x \<in> set xs. f x = Inl e"
  shows "sequence (map f xs) = Inl e"
  using assms
proof (induction xs)
  case Nil
  then show ?case by simp
next
  case (Cons x xs)
  show ?case
  proof (cases "f x")
    case (Inl e')
    with Cons.prems(1) [of x] show ?thesis by auto
  next
    case (Inr y)
    with Cons.prems(2) have "\<exists>x \<in> set xs. f x = Inl e" by auto
    with Cons.IH Cons.prems(1) have "sequence (map f xs) = Inl e" by auto
    with Inr show ?thesis by simp
  qed
qed

lemma MongoSort_init_empty_token:
  assumes "s \<noteq> []" and "[] \<in> set (split CHR '','' s)"
  shows "MongoSort_init cls (VStr s) = Inl IndexError"
proof -
  have "sequence (map sort_token (split CHR '','' s)) = Inl IndexError"
  proof (rule sequence_first_failure)
    fix x show "sort_token x = Inl IndexError \<or> (\<exists>y. sort_token x = Inr y)"
      by (simp add: sort_token_def)
  next
    from assms(2) show "\<exists>x \<in> set (split CHR '','' s). sort_token x = Inl IndexError"
      by (auto simp: sort_token_def)
  qed
  moreover have "list_all is_basestring (map VStr (split CHR '','' s))"
    by (induction "split CHR '','' s") (auto simp: list_all_iff)
  ultimately show ?thesis
    using assms(1) by (simp add: MongoSort_init_def Let_def comp_def)
qed

end
